theory Spec2Isabelle
  imports Main "HOL-Library.AList"
begin

section \<open>The query orchestrator of dask-sql: \<^verbatim>\<open>dask_sql/context.py\<close>\<close>

text \<open>
  The development embeds the class \<^verbatim>\<open>Context\<close> of \<^verbatim>\<open>dask_sql/context.py\<close>: its three
  registries, the three registration methods, the schema builder \<^verbatim>\<open>_prepare_schema\<close>, the
  plan request \<^verbatim>\<open>_get_ral\<close> and the entry point \<^verbatim>\<open>sql\<close>.

  Python objects that are mutable and can be shared (dataframes) live in an explicit store; a
  Python \<^verbatim>\<open>dict\<close> is an association list in insertion order; an exception is the left
  summand of a result. Collaborators that the file only imports (the Java parser and optimizer,
  the plan converter, the type mapping, the containers) are parameters or are modelled from
  their documented contract, each marked as such.
\<close>

subsection \<open>Strings\<close>

text \<open>
  \<^verbatim>\<open>str.lower()\<close>. Strings are lists of 8-bit characters; the letters \<^verbatim>\<open>A\<close> to \<^verbatim>\<open>Z\<close> are folded
  to \<^verbatim>\<open>a\<close> to \<^verbatim>\<open>z\<close>, every other character is kept. Code points beyond ASCII are outside
  this model.
\<close>

definition lower_char :: "char \<Rightarrow> char" where
  "lower_char c =
     (let n = (of_char c :: nat) in if 65 \<le> n \<and> n \<le> 90 then char_of (n + 32) else c)"

definition lower :: "string \<Rightarrow> string" where
  "lower s = map lower_char s"

text \<open>\<^verbatim>\<open>str.startswith(p)\<close>.\<close>

definition startswith :: "string \<Rightarrow> string \<Rightarrow> bool" where
  "startswith s p = (take (length p) s = p)"

subsection \<open>Exceptions\<close>

text \<open>
  \<^verbatim>\<open>SqlParseException\<close> and \<^verbatim>\<open>ValidationException\<close> are the two Java exceptions the module
  imports; each carries its message (\<^verbatim>\<open>e.message()\<close>). \<^verbatim>\<open>ParsingException\<close> is the
  exception \<^verbatim>\<open>sql\<close> raises: the query text, the message, and the \<^verbatim>\<open>__cause__\<close> set by
  \<^verbatim>\<open>raise ... from ...\<close> (\<open>None\<close> for \<^verbatim>\<open>from None\<close>). \<open>TypeMappingError\<close> is what the type
  mapping raises for a type without SQL equivalent, \<open>SchemaError\<close> what \<^verbatim>\<open>assign\<close> raises for
  a missing physical column, \<open>OtherError\<close> any other exception of a collaborator.
\<close>

datatype exn =
    SqlParseException string
  | ValidationException string
  | ParsingException string string "exn option"
  | TypeMappingError
  | SchemaError
  | OtherError string

fun message :: "exn \<Rightarrow> string" where
  "message (SqlParseException m) = m"
| "message (ValidationException m) = m"
| "message (ParsingException q m c) = m"
| "message TypeMappingError = []"
| "message SchemaError = []"
| "message (OtherError m) = m"

text \<open>The exceptions caught by \<^verbatim>\<open>except (ValidationException, SqlParseException)\<close>.\<close>

fun is_parse_or_validation :: "exn \<Rightarrow> bool" where
  "is_parse_or_validation (SqlParseException m) = True"
| "is_parse_or_validation (ValidationException m) = True"
| "is_parse_or_validation e = False"

subsection \<open>Dataframes and the object store\<close>

text \<open>
  A dataframe is the ordered list of its columns: label, column type (\<^verbatim>\<open>df[column].dtype\<close>) and
  the column's values, which stay opaque. \<^verbatim>\<open>df.columns\<close> is the list of labels. Dataframes are
  mutable objects handed around by reference, so they live in a store: an address is an index
  into the list of all dataframe objects allocated so far. Labels are taken to be unique within
  a dataframe.
\<close>

type_synonym addr = nat

type_synonym ('ty, 'v) DataFrame = "(string \<times> 'ty \<times> 'v) list"

type_synonym ('ty, 'v) store = "('ty, 'v) DataFrame list"

definition columns_of :: "('ty, 'v) DataFrame \<Rightarrow> string list" where
  "columns_of frame = map fst frame"

text \<open>
  \<^verbatim>\<open>DataFrame.copy\<close> belongs to the dataframe runtime, which \<^verbatim>\<open>context.py\<close> only calls. It
  is taken by its contract: a copy is a new object with the contents the original has at that
  moment; the new object gets the next free address.
\<close>

definition copy :: "('ty, 'v) store \<Rightarrow> addr \<Rightarrow> ('ty, 'v) store \<times> addr" where
  "copy h a = (h @ [h ! a], length h)"

subsection \<open>Column Container and Data Container\<close>

text \<open>
  Modelled from the spec: \<^verbatim>\<open>dask_sql.datacontainer.ColumnContainer\<close>, which \<^verbatim>\<open>context.py\<close>
  imports. The container is the ordered list of (Logical Name, Physical Label) pairs.
  \<^verbatim>\<open>ColumnContainer(cols)\<close> starts with every Logical Name equal to its Physical Label;
  \<^verbatim>\<open>columns\<close> is the ordered sequence of Logical Names; \<^verbatim>\<open>rename(mapping)\<close> keeps the Physical
  Labels and the order, substitutes each Logical Name found in \<open>mapping\<close> and keeps every
  other one.
\<close>

type_synonym ColumnContainer = "(string \<times> string) list"

definition ColumnContainer :: "string list \<Rightarrow> ColumnContainer" where
  "ColumnContainer cols = map (\<lambda>c. (c, c)) cols"

definition columns :: "ColumnContainer \<Rightarrow> string list" where
  "columns cc = map fst cc"

definition rename :: "ColumnContainer \<Rightarrow> (string \<times> string) list \<Rightarrow> ColumnContainer" where
  "rename cc mapping =
     map (\<lambda>(l, p). (case map_of mapping l of Some l' \<Rightarrow> l' | None \<Rightarrow> l, p)) cc"

text \<open>
  Modelled from the spec: \<^verbatim>\<open>dask_sql.datacontainer.DataContainer\<close>: a dataframe (by
  reference) paired with a Column Container.
\<close>

record DataContainer =
  df :: addr
  column_container :: ColumnContainer

definition DataContainer :: "addr \<Rightarrow> ColumnContainer \<Rightarrow> DataContainer" where
  "DataContainer a cc = \<lparr>df = a, column_container = cc\<rparr>"

text \<open>
  Modelled from the spec: \<^verbatim>\<open>DataContainer.assign\<close>. The result has one column per entry of
  the Column Container, in its order, labelled with the Logical Name and holding the type and
  values of the Physical Label's column; a Physical Label absent from the dataframe is a
  \<open>SchemaError\<close>. The result is a new dataframe, given by its value.
\<close>

fun assign_columns :: "('ty, 'v) DataFrame \<Rightarrow> ColumnContainer \<Rightarrow> exn + ('ty, 'v) DataFrame" where
  "assign_columns frame [] = Inr []"
| "assign_columns frame ((l, p) # cc) =
     (case map_of frame p of
        None \<Rightarrow> Inl SchemaError
      | Some tv \<Rightarrow>
          (case assign_columns frame cc of
             Inl e \<Rightarrow> Inl e
           | Inr cols \<Rightarrow> Inr ((l, tv) # cols)))"

definition assign :: "('ty, 'v) store \<Rightarrow> DataContainer \<Rightarrow> exn + ('ty, 'v) DataFrame" where
  "assign h dc = assign_columns (h ! df dc) (column_container dc)"

subsection \<open>The registries\<close>

text \<open>
  \<^verbatim>\<open>FunctionDescription = namedtuple("FunctionDescription", ["f", "parameters",
  "return_type", "aggregation"])\<close>.
\<close>

record ('ty, 'f) FunctionDescription =
  f :: 'f
  parameters :: "(string \<times> 'ty) list"
  return_type :: 'ty
  aggregation :: bool

definition FunctionDescription ::
  "'f \<Rightarrow> (string \<times> 'ty) list \<Rightarrow> 'ty \<Rightarrow> bool \<Rightarrow> ('ty, 'f) FunctionDescription" where
  "FunctionDescription g ps r a = \<lparr>f = g, parameters = ps, return_type = r, aggregation = a\<rparr>"

text \<open>
  The attributes \<^verbatim>\<open>self.tables\<close>, \<^verbatim>\<open>self.functions\<close> and \<^verbatim>\<open>self.aggregations\<close>. A \<^verbatim>\<open>dict\<close>
  keeps its keys in insertion order and an assignment to an existing key keeps the key's
  place, which is what \<^const>\<open>AList.update\<close> does on an association list.
\<close>

record ('ty, 'f) Context =
  tables :: "(string \<times> DataContainer) list"
  "functions" :: "(string \<times> ('ty, 'f) FunctionDescription) list"
  aggregations :: "(string \<times> 'f) list"

text \<open>
  \<^verbatim>\<open>Context.__init__\<close>. The plugin registrations that follow the three assignments go to
  the class-level tables of \<^verbatim>\<open>RelConverter\<close> and \<^verbatim>\<open>RexConverter\<close>, not to the context.
\<close>

definition init :: "('ty, 'f) Context" where
  "init = \<lparr>tables = [], functions = [], aggregations = []\<rparr>"

text \<open>
  \<^verbatim>\<open>register_dask_table(self, df, name)\<close>: \<^verbatim>\<open>df.copy()\<close> allocates the copy, and the new
  Data Container refers to the copy, with a Column Container over \<^verbatim>\<open>df.columns\<close>.
\<close>

definition register_dask_table ::
  "('ty, 'v) store \<times> ('ty, 'f) Context \<Rightarrow> addr \<Rightarrow> string
     \<Rightarrow> ('ty, 'v) store \<times> ('ty, 'f) Context" where
  "register_dask_table s a name =
     (case s of (h, self) \<Rightarrow>
        (case copy h a of (h', a') \<Rightarrow>
           (h', self\<lparr>tables :=
                  AList.update (lower name)
                    (DataContainer a' (ColumnContainer (columns_of (h ! a))))
                    (tables self)\<rparr>)))"

text \<open>\<^verbatim>\<open>register_function(self, f, name, parameters, return_type)\<close>.\<close>

definition register_function ::
  "('ty, 'f) Context \<Rightarrow> 'f \<Rightarrow> string \<Rightarrow> (string \<times> 'ty) list \<Rightarrow> 'ty \<Rightarrow> ('ty, 'f) Context" where
  "register_function self g name ps r =
     self\<lparr>functions :=
       AList.update (lower name) (FunctionDescription g ps r False) (functions self)\<rparr>"

text \<open>\<^verbatim>\<open>register_aggregation(self, f, name, parameters, return_type)\<close>.\<close>

definition register_aggregation ::
  "('ty, 'f) Context \<Rightarrow> 'f \<Rightarrow> string \<Rightarrow> (string \<times> 'ty) list \<Rightarrow> 'ty \<Rightarrow> ('ty, 'f) Context" where
  "register_aggregation self g name ps r =
     self\<lparr>functions :=
       AList.update (lower name) (FunctionDescription g ps r True) (functions self)\<rparr>"

subsection \<open>The schema handed to the parser\<close>

text \<open>
  Modelled from the spec: \<^verbatim>\<open>dask_sql.mappings.python_to_sql_type\<close>, which \<^verbatim>\<open>context.py\<close>
  imports. The table of known types is the parameter \<open>tm\<close>; a type without an entry raises
  \<open>TypeMappingError\<close>.
\<close>

definition python_to_sql_type :: "('ty \<Rightarrow> 'sql option) \<Rightarrow> 'ty \<Rightarrow> exn + 'sql" where
  "python_to_sql_type tm t = (case tm t of None \<Rightarrow> Inl TypeMappingError | Some s \<Rightarrow> Inr s)"

text \<open>
  Modelled from the spec: the Java classes \<^verbatim>\<open>DaskTable\<close>, \<^verbatim>\<open>DaskScalarFunction\<close>,
  \<^verbatim>\<open>DaskAggregateFunction\<close> and \<^verbatim>\<open>DaskSchema\<close>, which \<^verbatim>\<open>context.py\<close> imports. Each object
  is the record of what was added to it, in the order of the calls: a table has a name and
  (column, SQL type) pairs; a function is scalar or aggregate and has a name, a return type and
  (name, SQL type, optional) parameters; a schema has a name, tables and functions.
\<close>

record 'sql DaskTable =
  table_name :: string
  table_columns :: "(string \<times> 'sql) list"

definition DaskTable :: "string \<Rightarrow> 'sql DaskTable" where
  "DaskTable name = \<lparr>table_name = name, table_columns = []\<rparr>"

definition addColumn :: "'sql DaskTable \<Rightarrow> string \<Rightarrow> 'sql \<Rightarrow> 'sql DaskTable" where
  "addColumn table column t = table\<lparr>table_columns := table_columns table @ [(column, t)]\<rparr>"

datatype 'sql DaskFunction =
    DaskAggregateFunction string 'sql "(string \<times> 'sql \<times> bool) list"
  | DaskScalarFunction string 'sql "(string \<times> 'sql \<times> bool) list"

fun addParameter :: "'sql DaskFunction \<Rightarrow> string \<Rightarrow> 'sql \<Rightarrow> bool \<Rightarrow> 'sql DaskFunction" where
  "addParameter (DaskAggregateFunction n r ps) p t opt = DaskAggregateFunction n r (ps @ [(p, t, opt)])"
| "addParameter (DaskScalarFunction n r ps) p t opt = DaskScalarFunction n r (ps @ [(p, t, opt)])"

record 'sql DaskSchema =
  schema_name :: string
  schema_tables :: "'sql DaskTable list"
  schema_functions :: "'sql DaskFunction list"

definition DaskSchema :: "string \<Rightarrow> 'sql DaskSchema" where
  "DaskSchema name = \<lparr>schema_name = name, schema_tables = [], schema_functions = []\<rparr>"

definition addTable :: "'sql DaskSchema \<Rightarrow> 'sql DaskTable \<Rightarrow> 'sql DaskSchema" where
  "addTable schema table = schema\<lparr>schema_tables := schema_tables schema @ [table]\<rparr>"

definition addFunction :: "'sql DaskSchema \<Rightarrow> 'sql DaskFunction \<Rightarrow> 'sql DaskSchema" where
  "addFunction schema fn = schema\<lparr>schema_functions := schema_functions schema @ [fn]\<rparr>"

text \<open>
  \<^verbatim>\<open>_prepare_schema\<close>, lines 209 to 213: the loop over the columns of one dataframe. The
  loop variable \<^verbatim>\<open>column\<close> runs over \<^verbatim>\<open>df.columns\<close> and \<^verbatim>\<open>df[column].dtype\<close> is that column's
  type, so the loop runs over the (label, type) pairs in order.
\<close>

fun add_columns ::
  "('ty \<Rightarrow> 'sql option) \<Rightarrow> ('ty, 'v) DataFrame \<Rightarrow> 'sql DaskTable \<Rightarrow> exn + 'sql DaskTable" where
  "add_columns tm [] table = Inr table"
| "add_columns tm ((column, data_type, vs) # frame) table =
     (case python_to_sql_type tm data_type of
        Inl e \<Rightarrow> Inl e
      | Inr sql_data_type \<Rightarrow> add_columns tm frame (addColumn table column sql_data_type))"

text \<open>\<^verbatim>\<open>_prepare_schema\<close>, lines 206 to 215: the loop over \<^verbatim>\<open>self.tables.items()\<close>.\<close>

fun add_tables ::
  "('ty \<Rightarrow> 'sql option) \<Rightarrow> ('ty, 'v) store \<Rightarrow> (string \<times> DataContainer) list
     \<Rightarrow> 'sql DaskSchema \<Rightarrow> exn + 'sql DaskSchema" where
  "add_tables tm h [] schema = Inr schema"
| "add_tables tm h ((name, dc) # items) schema =
     (case add_columns tm (h ! df dc) (DaskTable name) of
        Inl e \<Rightarrow> Inl e
      | Inr table \<Rightarrow> add_tables tm h items (addTable schema table))"

text \<open>\<^verbatim>\<open>_add_parameters_from_description\<close>: the loop over the parameters.\<close>

fun add_parameters ::
  "('ty \<Rightarrow> 'sql option) \<Rightarrow> (string \<times> 'ty) list \<Rightarrow> 'sql DaskFunction \<Rightarrow> exn + 'sql DaskFunction" where
  "add_parameters tm [] dask_function = Inr dask_function"
| "add_parameters tm ((param_name, param_type) # ps) dask_function =
     (case python_to_sql_type tm param_type of
        Inl e \<Rightarrow> Inl e
      | Inr sql_param_type \<Rightarrow>
          add_parameters tm ps (addParameter dask_function param_name sql_param_type False))"

definition add_parameters_from_description ::
  "('ty \<Rightarrow> 'sql option) \<Rightarrow> ('ty, 'f) FunctionDescription \<Rightarrow> 'sql DaskFunction
     \<Rightarrow> exn + 'sql DaskFunction" where
  "add_parameters_from_description tm function_description dask_function =
     add_parameters tm (parameters function_description) dask_function"

text \<open>\<^verbatim>\<open>_prepare_schema\<close>, lines 217 to 225: the loop over \<^verbatim>\<open>self.functions.items()\<close>.\<close>

fun add_functions ::
  "('ty \<Rightarrow> 'sql option) \<Rightarrow> (string \<times> ('ty, 'f) FunctionDescription) list
     \<Rightarrow> 'sql DaskSchema \<Rightarrow> exn + 'sql DaskSchema" where
  "add_functions tm [] schema = Inr schema"
| "add_functions tm ((name, function_description) # items) schema =
     (case python_to_sql_type tm (return_type function_description) of
        Inl e \<Rightarrow> Inl e
      | Inr sql_return_type \<Rightarrow>
          (case add_parameters_from_description tm function_description
                  (if aggregation function_description
                   then DaskAggregateFunction name sql_return_type []
                   else DaskScalarFunction name sql_return_type []) of
             Inl e \<Rightarrow> Inl e
           | Inr dask_function \<Rightarrow> add_functions tm items (addFunction schema dask_function)))"

text \<open>\<^verbatim>\<open>_prepare_schema(self)\<close>.\<close>

definition prepare_schema ::
  "('ty \<Rightarrow> 'sql option) \<Rightarrow> ('ty, 'v) store \<Rightarrow> ('ty, 'f) Context \<Rightarrow> exn + 'sql DaskSchema" where
  "prepare_schema tm h self =
     (case add_tables tm h (tables self) (DaskSchema ''schema'') of
        Inl e \<Rightarrow> Inl e
      | Inr schema \<Rightarrow> add_functions tm (functions self) schema)"

subsection \<open>The external parser and optimizer\<close>

text \<open>
  The Java class \<^verbatim>\<open>RelationalAlgebraGenerator\<close> is the external parser, validator and
  optimizer; a generator is the record of its methods, each of which may raise. The helper
  \<^verbatim>\<open>get_java_class\<close> and the methods \<^verbatim>\<open>getSelectList\<close> and \<^verbatim>\<open>toSqlString\<close> of a parsed node
  form the second record. Both are parameters of the model.
\<close>

record ('node, 'rel, 'dialect) RelationalAlgebraGenerator =
  getSqlNode :: "string \<Rightarrow> exn + 'node"
  getValidatedNode :: "'node \<Rightarrow> exn + 'node"
  getRelationalAlgebra :: "'node \<Rightarrow> exn + 'rel"
  getOptimizedRelationalAlgebra :: "'rel \<Rightarrow> exn + 'rel"
  getDialect :: 'dialect
  getRelationalAlgebraString :: "'rel \<Rightarrow> string"

record ('node, 'dialect) SqlNode =
  get_java_class :: "'node \<Rightarrow> string"
  getSelectList :: "'node \<Rightarrow> 'node list"
  toSqlString :: "'node \<Rightarrow> 'dialect \<Rightarrow> string"

text \<open>
  \<^verbatim>\<open>_get_ral(self, sql, debug)\<close>. \<open>G\<close> is the constructor \<^verbatim>\<open>RelationalAlgebraGenerator(schema)\<close>.
  The result is the plan, the select names (\<open>None\<close> as in the source) and the lines printed
  by the debug branch.
\<close>

definition get_ral ::
  "('node, 'dialect) SqlNode \<Rightarrow> ('sql DaskSchema \<Rightarrow> ('node, 'rel, 'dialect) RelationalAlgebraGenerator)
     \<Rightarrow> ('ty \<Rightarrow> 'sql option) \<Rightarrow> ('ty, 'v) store \<Rightarrow> ('ty, 'f) Context \<Rightarrow> string \<Rightarrow> bool
     \<Rightarrow> exn + ('rel \<times> string list option \<times> string list)" where
  "get_ral J G tm h self q debug =
     (case prepare_schema tm h self of
        Inl e \<Rightarrow> Inl e
      | Inr schema \<Rightarrow>
     (let generator = G schema in
      case getSqlNode generator q of
        Inl e \<Rightarrow> Inl e
      | Inr sqlNode \<Rightarrow>
     (case getValidatedNode generator sqlNode of
        Inl e \<Rightarrow> Inl e
      | Inr validatedSqlNode \<Rightarrow>
     (case getRelationalAlgebra generator validatedSqlNode of
        Inl e \<Rightarrow> Inl e
      | Inr nonOptimizedRelNode \<Rightarrow>
     (case getOptimizedRelationalAlgebra generator nonOptimizedRelNode of
        Inl e \<Rightarrow> Inl e
      | Inr rel \<Rightarrow>
     (let default_dialect = getDialect generator;
          select_names =
            (if get_java_class J sqlNode = ''org.apache.calcite.sql.SqlSelect''
             then Some (map (\<lambda>s. toSqlString J s default_dialect) (getSelectList J sqlNode))
             else None)
      in Inr (rel, select_names,
              if debug then [getRelationalAlgebraString generator rel] else [])))))))"

subsection \<open>The entry point\<close>

text \<open>
  \<^verbatim>\<open>sql\<close>, lines 186 to 195: the renaming of the columns named \<^verbatim>\<open>EXPR$*\<close>. The condition
  \<^verbatim>\<open>if select_names:\<close> is false for \<^verbatim>\<open>None\<close> and for the empty list. The dict comprehension
  inserts the pairs of \<^verbatim>\<open>zip(cc.columns, select_names)\<close> from left to right.
\<close>

definition rename_expr_columns :: "DataContainer \<Rightarrow> string list option \<Rightarrow> DataContainer" where
  "rename_expr_columns dc select_names =
     (case select_names of
        None \<Rightarrow> dc
      | Some names \<Rightarrow>
          if names = [] then dc
          else
            (let cc = column_container dc;
                 cc' = rename cc
                   (fold (\<lambda>(df_col, select_name).
                            AList.update df_col
                              (if \<not> startswith df_col ''EXPR$'' then df_col else select_name))
                      (zip (columns cc) names) [])
             in DataContainer (df dc) cc'))"

text \<open>
  \<^verbatim>\<open>sql\<close>, lines 174 to 184: the handler. A parse or validation exception becomes a
  \<^verbatim>\<open>ParsingException\<close> with the query text and \<^verbatim>\<open>str(e.message())\<close>, chained to the original
  only under \<^verbatim>\<open>debug\<close>; any other exception is not caught.
\<close>

definition handle_exception :: "string \<Rightarrow> bool \<Rightarrow> exn \<Rightarrow> exn" where
  "handle_exception q debug e =
     (if is_parse_or_validation e
      then ParsingException q (message e) (if debug then Some e else None)
      else e)"

text \<open>
  \<^verbatim>\<open>sql(self, sql, debug)\<close>. \<open>convert\<close> is \<^verbatim>\<open>RelConverter.convert(rel, context=self)\<close>, a
  parameter: it reads the context and the store and returns the final Data Container together
  with the store that holds the dataframes it has built. The result of \<^verbatim>\<open>sql\<close> is the list of
  lines printed and either the exception raised or the dataframe returned.
\<close>

definition sql ::
  "('node, 'dialect) SqlNode \<Rightarrow> ('sql DaskSchema \<Rightarrow> ('node, 'rel, 'dialect) RelationalAlgebraGenerator)
     \<Rightarrow> ('rel \<Rightarrow> ('ty, 'v) store \<Rightarrow> ('ty, 'f) Context \<Rightarrow> exn + ('ty, 'v) store \<times> DataContainer)
     \<Rightarrow> ('ty \<Rightarrow> 'sql option) \<Rightarrow> ('ty, 'v) store \<Rightarrow> ('ty, 'f) Context \<Rightarrow> string \<Rightarrow> bool
     \<Rightarrow> string list \<times> (exn + ('ty, 'v) DataFrame)" where
  "sql J G convert tm h self q debug =
     (case get_ral J G tm h self q debug of
        Inl e \<Rightarrow> ([], Inl (handle_exception q debug e))
      | Inr (rel, select_names, out) \<Rightarrow>
          (case convert rel h self of
             Inl e \<Rightarrow> (out, Inl (handle_exception q debug e))
           | Inr (h', dc) \<Rightarrow> (out, assign h' (rename_expr_columns dc select_names))))"

subsection \<open>Sequences of calls\<close>

text \<open>
  A client's use of a context: a sequence of calls of the four public methods. The state is
  the store and the context; the results of the \<^verbatim>\<open>sql\<close> calls are collected.
\<close>

datatype ('ty, 'f) api_call =
    Register_dask_table addr string
  | Register_function 'f string "(string \<times> 'ty) list" 'ty
  | Register_aggregation 'f string "(string \<times> 'ty) list" 'ty
  | Sql string bool

fun call ::
  "('node, 'dialect) SqlNode \<Rightarrow> ('sql DaskSchema \<Rightarrow> ('node, 'rel, 'dialect) RelationalAlgebraGenerator)
     \<Rightarrow> ('rel \<Rightarrow> ('ty, 'v) store \<Rightarrow> ('ty, 'f) Context \<Rightarrow> exn + ('ty, 'v) store \<times> DataContainer)
     \<Rightarrow> ('ty \<Rightarrow> 'sql option) \<Rightarrow> ('ty, 'f) api_call
     \<Rightarrow> (('ty, 'v) store \<times> ('ty, 'f) Context) \<times> (string list \<times> (exn + ('ty, 'v) DataFrame)) list
     \<Rightarrow> (('ty, 'v) store \<times> ('ty, 'f) Context) \<times> (string list \<times> (exn + ('ty, 'v) DataFrame)) list" where
  "call J G convert tm (Register_dask_table a name) (s, rs) = (register_dask_table s a name, rs)"
| "call J G convert tm (Register_function g name ps r) ((h, self), rs) =
     ((h, register_function self g name ps r), rs)"
| "call J G convert tm (Register_aggregation g name ps r) ((h, self), rs) =
     ((h, register_aggregation self g name ps r), rs)"
| "call J G convert tm (Sql q debug) ((h, self), rs) =
     ((h, self), rs @ [sql J G convert tm h self q debug])"

definition calls ::
  "('node, 'dialect) SqlNode \<Rightarrow> ('sql DaskSchema \<Rightarrow> ('node, 'rel, 'dialect) RelationalAlgebraGenerator)
     \<Rightarrow> ('rel \<Rightarrow> ('ty, 'v) store \<Rightarrow> ('ty, 'f) Context \<Rightarrow> exn + ('ty, 'v) store \<times> DataContainer)
     \<Rightarrow> ('ty \<Rightarrow> 'sql option) \<Rightarrow> ('ty, 'f) api_call list
     \<Rightarrow> (('ty, 'v) store \<times> ('ty, 'f) Context) \<times> (string list \<times> (exn + ('ty, 'v) DataFrame)) list
     \<Rightarrow> (('ty, 'v) store \<times> ('ty, 'f) Context) \<times> (string list \<times> (exn + ('ty, 'v) DataFrame)) list" where
  "calls J G convert tm cs st = fold (call J G convert tm) cs st"

subsection \<open>The schema as the specification describes it\<close>

text \<open>
  The specification's description of the schema, to be compared with what \<^const>\<open>prepare_schema\<close>
  builds: every registered table contributes its name and all its (column, SQL type) pairs;
  every registered function contributes its name, its return type and its parameters, as an
  aggregate function if its flag is set and as a scalar function otherwise; tables and
  functions come in the order of the registries. \<open>types_mapped\<close> says that every column type,
  return type and parameter type of the registries has a SQL type.
\<close>

definition types_mapped ::
  "('ty \<Rightarrow> 'sql option) \<Rightarrow> ('ty, 'v) store \<Rightarrow> ('ty, 'f) Context \<Rightarrow> bool" where
  "types_mapped tm h self =
     (list_all (\<lambda>(name, dc). list_all (\<lambda>(column, t, vs). tm t \<noteq> None) (h ! df dc))
        (tables self)
      \<and> list_all (\<lambda>(name, fd). tm (return_type fd) \<noteq> None
                     \<and> list_all (\<lambda>(p, t). tm t \<noteq> None) (parameters fd))
          (functions self))"

definition table_of_entry ::
  "('ty \<Rightarrow> 'sql option) \<Rightarrow> ('ty, 'v) store \<Rightarrow> string \<times> DataContainer \<Rightarrow> 'sql DaskTable" where
  "table_of_entry tm h entry =
     \<lparr>table_name = fst entry,
      table_columns = map (\<lambda>(column, t, vs). (column, the (tm t))) (h ! df (snd entry))\<rparr>"

definition function_of_entry ::
  "('ty \<Rightarrow> 'sql option) \<Rightarrow> string \<times> ('ty, 'f) FunctionDescription \<Rightarrow> 'sql DaskFunction" where
  "function_of_entry tm entry =
     (if aggregation (snd entry)
      then DaskAggregateFunction (fst entry) (the (tm (return_type (snd entry))))
             (map (\<lambda>(p, t). (p, the (tm t), False)) (parameters (snd entry)))
      else DaskScalarFunction (fst entry) (the (tm (return_type (snd entry))))
             (map (\<lambda>(p, t). (p, the (tm t), False)) (parameters (snd entry))))"

definition schema_of_registries ::
  "('ty \<Rightarrow> 'sql option) \<Rightarrow> ('ty, 'v) store \<Rightarrow> ('ty, 'f) Context \<Rightarrow> 'sql DaskSchema" where
  "schema_of_registries tm h self =
     \<lparr>schema_name = ''schema'',
      schema_tables = map (table_of_entry tm h) (tables self),
      schema_functions = map (function_of_entry tm) (functions self)\<rparr>"

section \<open>Properties of the registries\<close>

subsection \<open>Auxiliary facts\<close>

lemma tables_register_dask_table:
  "tables (snd (register_dask_table (h, self) a n)) =
     AList.update (lower n) (DataContainer (length h) (ColumnContainer (columns_of (h ! a))))
       (tables self)"
  by (simp add: register_dask_table_def copy_def)

lemma store_register_dask_table:
  "fst (register_dask_table (h, self) a n) = h @ [h ! a]"
  by (simp add: register_dask_table_def copy_def)

lemma length_update:
  "length (AList.update k v al) = (if k \<in> fst ` set al then length al else Suc (length al))"
  by (induction al) auto

lemma aggregations_call:
  "aggregations (snd (fst (call J G convert tm c st))) = aggregations (snd (fst st))"
proof (cases st)
  case (Pair s rs)
  obtain h self where s: "s = (h, self)" by (cases s)
  show ?thesis
    by (cases c)
       (simp_all add: Pair s register_dask_table_def copy_def register_function_def
          register_aggregation_def)
qed

lemma aggregations_calls:
  "aggregations (snd (fst (calls J G convert tm cs st))) = aggregations (snd (fst st))"
  unfolding calls_def
  by (induction cs arbitrary: st) (simp_all add: aggregations_call)

subsection \<open>Keys and replacement\<close>

text \<open>
  Claim C4. For every name \<open>n\<close>, \<^verbatim>\<open>register_dask_table\<close> stores its entry under the
  case-folded key \<open>lower n\<close> of the table registry, and \<^verbatim>\<open>register_function\<close> and
  \<^verbatim>\<open>register_aggregation\<close> store theirs under \<open>lower n\<close> of the function registry. Whatever
  the registry held before, the call succeeds, a lookup of \<open>lower n\<close> afterwards gives exactly
  the new entry, and the keys of the registry are the old keys together with \<open>lower n\<close>.
\<close>

theorem registration_stores_under_lower_name:
  "map_of (tables (snd (register_dask_table (h, self) a n))) (lower n)
     = Some (DataContainer (length h) (ColumnContainer (columns_of (h ! a))))
   \<and> fst ` set (tables (snd (register_dask_table (h, self) a n)))
     = insert (lower n) (fst ` set (tables self))
   \<and> map_of (functions (register_function self g n ps r)) (lower n)
     = Some (FunctionDescription g ps r False)
   \<and> fst ` set (functions (register_function self g n ps r))
     = insert (lower n) (fst ` set (functions self))
   \<and> map_of (functions (register_aggregation self g n ps r)) (lower n)
     = Some (FunctionDescription g ps r True)
   \<and> fst ` set (functions (register_aggregation self g n ps r))
     = insert (lower n) (fst ` set (functions self))"
  by (simp add: tables_register_dask_table register_function_def register_aggregation_def
        AList.update_conv' AList.dom_update)

text \<open>
  Claim C5. \<^verbatim>\<open>register_function\<close> and \<^verbatim>\<open>register_aggregation\<close> write to the one function
  registry under \<open>lower n\<close> and leave the aggregations map alone. After \<^verbatim>\<open>register_function\<close>
  the entry's aggregation flag is false, after \<^verbatim>\<open>register_aggregation\<close> it is true. A function
  registered under a name that folds to the key of an earlier entry overwrites that entry,
  whether the earlier one was scalar or aggregate, and the registry does not grow.
\<close>

theorem one_function_registry:
  "map_of (functions (register_function self g n ps r)) (lower n)
     = Some (FunctionDescription g ps r False)
   \<and> aggregation (FunctionDescription g ps r False) = False
   \<and> map_of (functions (register_aggregation self g n ps r)) (lower n)
     = Some (FunctionDescription g ps r True)
   \<and> aggregation (FunctionDescription g ps r True) = True
   \<and> aggregations (register_function self g n ps r) = aggregations self
   \<and> aggregations (register_aggregation self g n ps r) = aggregations self
   \<and> (lower n' = lower n \<longrightarrow>
        map_of (functions (register_function (register_aggregation self g' n' ps' r') g n ps r))
            (lower n')
          = Some (FunctionDescription g ps r False)
      \<and> map_of (functions (register_aggregation (register_function self g' n' ps' r') g n ps r))
            (lower n')
          = Some (FunctionDescription g ps r True)
      \<and> length (functions (register_function (register_aggregation self g' n' ps' r') g n ps r))
          = length (functions (register_aggregation self g' n' ps' r'))
      \<and> length (functions (register_aggregation (register_function self g' n' ps' r') g n ps r))
          = length (functions (register_function self g' n' ps' r')))"
  by (simp add: register_function_def register_aggregation_def
        AList.update_conv' FunctionDescription_def length_update)

theorem one_function_registry_witness:
  "lower ''fagg'' = lower ''FAGG''
   \<and> map_of (functions (register_function
        (register_aggregation init (1::nat) ''fagg'' [(''x'', ''float64'')] ''float64'')
        2 ''FAGG'' [(''x'', ''int64'')] ''int64'')) (lower ''fagg'')
     = Some (FunctionDescription 2 [(''x'', ''int64'')] ''int64'' False)"
proof -
  have fold: "lower ''fagg'' = lower ''FAGG''"
    by code_simp
  from fold
    one_function_registry [where n' = "''fagg''" and n = "''FAGG''" and self = init
      and g' = "1::nat" and g = 2 and ps' = "[(''x'', ''float64'')]" and r' = "''float64''"
      and ps = "[(''x'', ''int64'')]" and r = "''int64''"]
  show ?thesis by simp
qed

subsection \<open>The aggregations map\<close>

text \<open>
  Claim C8. The aggregations map of a new context is empty, and it is still empty after any
  sequence of calls of \<^verbatim>\<open>register_dask_table\<close>, \<^verbatim>\<open>register_function\<close>,
  \<^verbatim>\<open>register_aggregation\<close> and \<^verbatim>\<open>sql\<close>: no public operation writes to it.
\<close>

theorem aggregations_remain_empty:
  "aggregations (init :: ('ty, 'f) Context) = []
   \<and> aggregations
        (snd (fst (calls J G convert tm cs ((h, init :: ('ty, 'f) Context), rs)))) = []"
  by (simp add: aggregations_calls) (simp add: init_def)

subsection \<open>The registered table is a copy\<close>

text \<open>
  Claim C9. \<^verbatim>\<open>register_dask_table\<close> stores a Data Container whose dataframe is a new object,
  different from the caller's, with the contents the caller's dataframe has at registration,
  paired with a Column Container over that dataframe's columns. Whatever the caller's object is
  changed to afterwards, the registered dataframe keeps those contents. The caller's reference
  \<open>a\<close> is a live object of the store.
\<close>

theorem registered_table_is_a_copy:
  assumes "a < length h"
  shows "case register_dask_table (h, self) a n of (h', self') \<Rightarrow>
           (\<exists>dc. map_of (tables self') (lower n) = Some dc
              \<and> df dc \<noteq> a
              \<and> df dc < length h'
              \<and> h' ! df dc = h ! a
              \<and> column_container dc = ColumnContainer (columns_of (h ! a))
              \<and> (\<forall>frame. (h'[a := frame]) ! df dc = h ! a))"
  using assms
  by (simp add: register_dask_table_def copy_def AList.update_conv' DataContainer_def
        nth_append)

theorem registered_table_is_a_copy_witness:
  "(0::nat) < length [[(''x'', ''int64'', [1::int, 2])]]
   \<and> (case register_dask_table ([[(''x'', ''int64'', [1::int, 2])]], init :: (string, nat) Context)
            0 ''T'' of
        (h', self') \<Rightarrow>
          (\<exists>dc. map_of (tables self') (lower ''T'') = Some dc
             \<and> df dc \<noteq> 0
             \<and> df dc < length h'
             \<and> h' ! df dc = [(''x'', ''int64'', [1, 2])]
             \<and> column_container dc = ColumnContainer (columns_of [(''x'', ''int64'', [1::int, 2])])
             \<and> (\<forall>frame. (h'[0 := frame]) ! df dc = [(''x'', ''int64'', [1, 2])])))"
proof -
  have live: "(0::nat) < length [[(''x'', ''int64'', [1::int, 2])]]"
    by simp
  from live
    registered_table_is_a_copy [OF live, where self = "init :: (string, nat) Context"
      and n = "''T''"]
  show ?thesis by simp
qed

subsection \<open>What a registration leaves alone\<close>

text \<open>
  Claim C10. A registration touches only its own entry. \<^verbatim>\<open>register_dask_table(df, n)\<close>
  leaves the lookup of every key other than \<open>lower n\<close> in the table registry, the function
  registry, the aggregations map and every dataframe already in the store as they were;
  \<^verbatim>\<open>register_function\<close> and \<^verbatim>\<open>register_aggregation\<close> leave the lookup of every key other than
  \<open>lower n\<close> in the function registry, the table registry and the aggregations map as they
  were.
\<close>

theorem registration_touches_only_its_entry:
  assumes "k \<noteq> lower n"
  shows "map_of (tables (snd (register_dask_table (h, self) a n))) k = map_of (tables self) k
       \<and> functions (snd (register_dask_table (h, self) a n)) = functions self
       \<and> aggregations (snd (register_dask_table (h, self) a n)) = aggregations self
       \<and> take (length h) (fst (register_dask_table (h, self) a n)) = h
       \<and> map_of (functions (register_function self g n ps r)) k = map_of (functions self) k
       \<and> tables (register_function self g n ps r) = tables self
       \<and> aggregations (register_function self g n ps r) = aggregations self
       \<and> map_of (functions (register_aggregation self g n ps r)) k = map_of (functions self) k
       \<and> tables (register_aggregation self g n ps r) = tables self
       \<and> aggregations (register_aggregation self g n ps r) = aggregations self"
  using assms
  by (simp add: register_dask_table_def copy_def register_function_def
        register_aggregation_def AList.update_conv')

theorem registration_touches_only_its_entry_witness:
  "''other'' \<noteq> lower ''T''
   \<and> map_of (tables (snd (register_dask_table
        ([[(''x'', ''int64'', [1::int])]],
         \<lparr>tables = [(''other'', DataContainer 0 (ColumnContainer [''x'']))],
          functions = [(''other'', FunctionDescription (7::nat) [] ''int64'' False)],
          aggregations = []\<rparr>) 0 ''T''))) ''other''
     = Some (DataContainer 0 (ColumnContainer [''x'']))
   \<and> map_of (functions (register_function
        \<lparr>tables = [(''other'', DataContainer 0 (ColumnContainer [''x'']))],
         functions = [(''other'', FunctionDescription (7::nat) [] ''int64'' False)],
         aggregations = []\<rparr> 8 ''T'' [] ''int64'')) ''other''
     = Some (FunctionDescription 7 [] ''int64'' False)"
proof -
  have other: "''other'' \<noteq> lower ''T''"
    by code_simp
  from other
    registration_touches_only_its_entry [OF other,
      where h = "[[(''x'', ''int64'', [1::int])]]" and a = 0 and g = "8::nat"
      and ps = "[]" and r = "''int64''"
      and self = "\<lparr>tables = [(''other'', DataContainer 0 (ColumnContainer [''x'']))],
          functions = [(''other'', FunctionDescription (7::nat) [] ''int64'' False)],
          aggregations = []\<rparr>"]
  show ?thesis by simp
qed

section \<open>Properties of the schema builder\<close>

subsection \<open>What the loops compute\<close>

lemma add_columns_char:
  "add_columns tm frame table =
     (if list_all (\<lambda>(column, t, vs). tm t \<noteq> None) frame
      then Inr (table\<lparr>table_columns :=
                  table_columns table @ map (\<lambda>(column, t, vs). (column, the (tm t))) frame\<rparr>)
      else Inl TypeMappingError)"
  by (induction frame arbitrary: table)
     (auto simp: python_to_sql_type_def addColumn_def split: option.splits)

lemma add_tables_char:
  "add_tables tm h items schema =
     (if list_all (\<lambda>(name, dc). list_all (\<lambda>(column, t, vs). tm t \<noteq> None) (h ! df dc)) items
      then Inr (schema\<lparr>schema_tables := schema_tables schema @ map (table_of_entry tm h) items\<rparr>)
      else Inl TypeMappingError)"
  by (induction items arbitrary: schema)
     (auto simp: add_columns_char addTable_def DaskTable_def table_of_entry_def)

lemma add_parameters_aggregate:
  "add_parameters tm ps (DaskAggregateFunction n r qs) =
     (if list_all (\<lambda>(p, t). tm t \<noteq> None) ps
      then Inr (DaskAggregateFunction n r (qs @ map (\<lambda>(p, t). (p, the (tm t), False)) ps))
      else Inl TypeMappingError)"
  by (induction ps arbitrary: qs)
     (auto simp: python_to_sql_type_def split: option.splits)

lemma add_parameters_scalar:
  "add_parameters tm ps (DaskScalarFunction n r qs) =
     (if list_all (\<lambda>(p, t). tm t \<noteq> None) ps
      then Inr (DaskScalarFunction n r (qs @ map (\<lambda>(p, t). (p, the (tm t), False)) ps))
      else Inl TypeMappingError)"
  by (induction ps arbitrary: qs)
     (auto simp: python_to_sql_type_def split: option.splits)

lemma add_functions_char:
  "add_functions tm items schema =
     (if list_all (\<lambda>(name, fd). tm (return_type fd) \<noteq> None
                     \<and> list_all (\<lambda>(p, t). tm t \<noteq> None) (parameters fd)) items
      then Inr (schema\<lparr>schema_functions :=
                  schema_functions schema @ map (function_of_entry tm) items\<rparr>)
      else Inl TypeMappingError)"
  by (induction items arbitrary: schema)
     (auto simp: python_to_sql_type_def add_parameters_from_description_def
        add_parameters_aggregate add_parameters_scalar addFunction_def function_of_entry_def
        split: option.splits if_splits)

lemma prepare_schema_char:
  "prepare_schema tm h self =
     (if types_mapped tm h self then Inr (schema_of_registries tm h self)
      else Inl TypeMappingError)"
  by (auto simp: prepare_schema_def add_tables_char add_functions_char types_mapped_def
        schema_of_registries_def DaskSchema_def)

lemma not_types_mapped_table:
  assumes "(name, dc) \<in> set (tables self)" "(column, t, vs) \<in> set (h ! df dc)" "tm t = None"
  shows "\<not> types_mapped tm h self"
  using assms by (fastforce simp: types_mapped_def list_all_iff)

lemma not_types_mapped_return:
  assumes "(name, fd) \<in> set (functions self)" "tm (return_type fd) = None"
  shows "\<not> types_mapped tm h self"
  using assms by (fastforce simp: types_mapped_def list_all_iff)

lemma not_types_mapped_parameter:
  assumes "(name, fd) \<in> set (functions self)" "(p, t) \<in> set (parameters fd)" "tm t = None"
  shows "\<not> types_mapped tm h self"
  using assms by (fastforce simp: types_mapped_def list_all_iff)

lemma sql_schema_failure:
  "prepare_schema tm h self = Inl e \<Longrightarrow>
     get_ral J G tm h self q debug = Inl e
     \<and> sql J G convert tm h self q debug = ([], Inl (handle_exception q debug e))"
  by (simp add: get_ral_def sql_def)

lemma get_ral_schema:
  "prepare_schema tm h self = Inr schema \<Longrightarrow>
     get_ral J G tm h self q debug = get_ral J (\<lambda>_. G schema) tm h self q debug"
  by (simp add: get_ral_def)

lemma calls_snoc:
  "calls J G convert tm (cs @ [c]) st = call J G convert tm c (calls J G convert tm cs st)"
  by (simp add: calls_def)

lemma updated_entry_in_image:
  "g (k, v) \<in> g ` set (AList.update k v al)"
  by (induction al) auto

subsection \<open>The schema is rebuilt for every query\<close>

text \<open>
  Claim C6. When every type of the registries has a SQL type, \<^verbatim>\<open>_prepare_schema\<close> returns
  exactly the schema the specification describes for the current store and registries: every
  registered table with its name and all its column and type pairs, every registered function
  with its name, parameters and return type, aggregate or scalar by its flag. The parser
  generator that \<^verbatim>\<open>_get_ral\<close> and \<^verbatim>\<open>sql\<close> construct is given this schema and no other. Nothing
  is kept from one call to the next: after any sequence of calls, a following \<^verbatim>\<open>sql\<close> call is
  \<^verbatim>\<open>sql\<close> on the store and registries as they are then, and the schema of a context after a
  registration contains the table or function just registered.
\<close>

theorem schema_built_from_current_registries:
  assumes "types_mapped tm h self"
  shows "prepare_schema tm h self = Inr (schema_of_registries tm h self)
       \<and> get_ral J G tm h self q debug
           = get_ral J (\<lambda>_. G (schema_of_registries tm h self)) tm h self q debug
       \<and> sql J G convert tm h self q debug
           = sql J (\<lambda>_. G (schema_of_registries tm h self)) convert tm h self q debug
       \<and> (case fst (calls J G convert tm cs st) of (h', self') \<Rightarrow>
            last (snd (calls J G convert tm (cs @ [Sql q debug]) st))
              = sql J G convert tm h' self' q debug)
       \<and> function_of_entry tm (lower n, FunctionDescription g ps r False)
           \<in> set (schema_functions (schema_of_registries tm h (register_function self g n ps r)))
       \<and> function_of_entry tm (lower n, FunctionDescription g ps r True)
           \<in> set (schema_functions
                  (schema_of_registries tm h (register_aggregation self g n ps r)))
       \<and> (case register_dask_table (h, self) a n of (h', self') \<Rightarrow>
            table_of_entry tm h'
                (lower n, DataContainer (length h) (ColumnContainer (columns_of (h ! a))))
              \<in> set (schema_tables (schema_of_registries tm h' self')))"
proof -
  have 1: "prepare_schema tm h self = Inr (schema_of_registries tm h self)"
    using assms by (simp add: prepare_schema_char)
  have 2: "get_ral J G tm h self q debug
           = get_ral J (\<lambda>_. G (schema_of_registries tm h self)) tm h self q debug"
    using 1 by (rule get_ral_schema)
  have 3: "sql J G convert tm h self q debug
           = sql J (\<lambda>_. G (schema_of_registries tm h self)) convert tm h self q debug"
    using 2 by (simp add: sql_def)
  have 4: "(case fst (calls J G convert tm cs st) of (h', self') \<Rightarrow>
            last (snd (calls J G convert tm (cs @ [Sql q debug]) st))
              = sql J G convert tm h' self' q debug)"
  proof -
    obtain h' self' rs where "calls J G convert tm cs st = ((h', self'), rs)"
      by (metis surj_pair)
    then show ?thesis
      by (simp add: calls_snoc)
  qed
  have 5: "function_of_entry tm (lower n, FunctionDescription g ps r False)
           \<in> set (schema_functions (schema_of_registries tm h (register_function self g n ps r)))"
    by (simp add: schema_of_registries_def register_function_def updated_entry_in_image)
  have 6: "function_of_entry tm (lower n, FunctionDescription g ps r True)
           \<in> set (schema_functions
                  (schema_of_registries tm h (register_aggregation self g n ps r)))"
    by (simp add: schema_of_registries_def register_aggregation_def updated_entry_in_image)
  have 7: "(case register_dask_table (h, self) a n of (h', self') \<Rightarrow>
            table_of_entry tm h'
                (lower n, DataContainer (length h) (ColumnContainer (columns_of (h ! a))))
              \<in> set (schema_tables (schema_of_registries tm h' self')))"
    by (simp add: schema_of_registries_def register_dask_table_def copy_def
          updated_entry_in_image)
  from 1 2 3 4 5 6 7 show ?thesis by blast
qed

theorem schema_built_from_current_registries_witness:
  "types_mapped (\<lambda>t. if t = ''int64'' then Some ''BIGINT'' else None)
     [[(''x'', ''int64'', [1::int, 2])]]
     \<lparr>tables = [(''t'', DataContainer 0 (ColumnContainer [''x'']))],
      functions = [(''fagg'', FunctionDescription (1::nat) [(''x'', ''int64'')] ''int64'' True)],
      aggregations = []\<rparr>
   \<and> prepare_schema (\<lambda>t. if t = ''int64'' then Some ''BIGINT'' else None)
       [[(''x'', ''int64'', [1::int, 2])]]
       \<lparr>tables = [(''t'', DataContainer 0 (ColumnContainer [''x'']))],
        functions = [(''fagg'', FunctionDescription (1::nat) [(''x'', ''int64'')] ''int64'' True)],
        aggregations = []\<rparr>
     = Inr \<lparr>schema_name = ''schema'',
            schema_tables = [\<lparr>table_name = ''t'', table_columns = [(''x'', ''BIGINT'')]\<rparr>],
            schema_functions =
              [DaskAggregateFunction ''fagg'' ''BIGINT'' [(''x'', ''BIGINT'', False)]]\<rparr>"
proof -
  have mapped: "types_mapped (\<lambda>t. if t = ''int64'' then Some ''BIGINT'' else None)
     [[(''x'', ''int64'', [1::int, 2])]]
     \<lparr>tables = [(''t'', DataContainer 0 (ColumnContainer [''x'']))],
      functions = [(''fagg'', FunctionDescription (1::nat) [(''x'', ''int64'')] ''int64'' True)],
      aggregations = []\<rparr>"
    by (simp add: types_mapped_def DataContainer_def FunctionDescription_def)
  from mapped schema_built_from_current_registries [OF mapped, THEN conjunct1]
  show ?thesis
    by (simp add: schema_of_registries_def table_of_entry_def function_of_entry_def
          DataContainer_def FunctionDescription_def)
qed

subsection \<open>An unmapped type fails the query before parsing\<close>

text \<open>
  Claim C7. If a column of a registered table, or the return type or a parameter type of a
  registered function, has no SQL type, then \<^verbatim>\<open>_prepare_schema\<close> raises the type-mapping
  error, and so do \<^verbatim>\<open>_get_ral\<close> and \<^verbatim>\<open>sql\<close>, whatever the query text and whatever the parser
  and the plan converter would do: schema building comes first and the parser is not reached.
\<close>

theorem unmapped_type_fails_before_parsing:
  assumes "(\<exists>name dc column t vs.
              (name, dc) \<in> set (tables self) \<and> (column, t, vs) \<in> set (h ! df dc) \<and> tm t = None)
         \<or> (\<exists>name fd.
              (name, fd) \<in> set (functions self)
              \<and> (tm (return_type fd) = None
                 \<or> (\<exists>p t. (p, t) \<in> set (parameters fd) \<and> tm t = None)))"
  shows "prepare_schema tm h self = Inl TypeMappingError
       \<and> get_ral J G tm h self q debug = Inl TypeMappingError
       \<and> sql J G convert tm h self q debug = ([], Inl TypeMappingError)"
proof -
  from assms have "\<not> types_mapped tm h self"
    by (blast dest: not_types_mapped_table not_types_mapped_return not_types_mapped_parameter)
  then have "prepare_schema tm h self = Inl TypeMappingError"
    by (simp add: prepare_schema_char)
  then show ?thesis
    using sql_schema_failure [of tm h self TypeMappingError J G q debug convert]
    by (simp add: handle_exception_def)
qed

theorem unmapped_type_fails_before_parsing_witness:
  "sql \<lparr>get_java_class = (\<lambda>node::nat. ''org.apache.calcite.sql.SqlSelect''),
        getSelectList = (\<lambda>node. []),
        toSqlString = (\<lambda>node (dialect::unit). ''x'')\<rparr>
       (\<lambda>schema::string DaskSchema.
          \<lparr>getSqlNode = (\<lambda>q. Inl (SqlParseException ''Encountered FROM at line 1'')),
           getValidatedNode = Inr,
           getRelationalAlgebra = Inr, getOptimizedRelationalAlgebra = Inr,
           getDialect = (), getRelationalAlgebraString = (\<lambda>rel::nat. ''plan'')\<rparr>)
       (\<lambda>rel h (self :: (string, nat) Context). Inr (h, DataContainer 0 []))
       (\<lambda>t. if t = ''int64'' then Some ''BIGINT'' else None)
       [[(''a'', ''int64'', [1::int]), (''b'', ''complex128'', [2])]]
       \<lparr>tables = [(''t'', DataContainer 0 (ColumnContainer [''a'', ''b'']))],
        functions = [], aggregations = []\<rparr>
       ''SELECT FROM t'' True
     = ([], Inl TypeMappingError)"
proof -
  let ?tm = "\<lambda>t. if t = ''int64'' then Some ''BIGINT'' else None"
  let ?h = "[[(''a'', ''int64'', [1::int]), (''b'', ''complex128'', [2])]]"
  let ?self = "\<lparr>tables = [(''t'', DataContainer 0 (ColumnContainer [''a'', ''b'']))],
        functions = [], aggregations = []\<rparr> :: (string, nat) Context"
  have "(''t'', DataContainer 0 (ColumnContainer [''a'', ''b''])) \<in> set (tables ?self)
        \<and> (''b'', ''complex128'', [2]) \<in> set (?h ! df (DataContainer 0 (ColumnContainer [''a'', ''b''])))
        \<and> ?tm ''complex128'' = None"
    by (simp add: DataContainer_def)
  then have unmapped: "(\<exists>name dc column t vs.
              (name, dc) \<in> set (tables ?self) \<and> (column, t, vs) \<in> set (?h ! df dc) \<and> ?tm t = None)
         \<or> (\<exists>name fd.
              (name, fd) \<in> set (functions ?self)
              \<and> (?tm (return_type fd) = None
                 \<or> (\<exists>p t. (p, t) \<in> set (parameters fd) \<and> ?tm t = None)))"
    by blast
  from unmapped_type_fails_before_parsing [OF unmapped, THEN conjunct2, THEN conjunct2]
  show ?thesis .
qed

section \<open>Properties of the entry point\<close>

subsection \<open>Auxiliary facts\<close>







subsection \<open>Parse and validation failures\<close>

text \<open>
  Claim C2. Let the schema be built, and let the external parser, validator or optimizer raise
  a parse or validation exception \<open>e\<close> at one of its four steps while \<^verbatim>\<open>sql(q, debug)\<close> runs.
  Then \<^verbatim>\<open>sql\<close> raises one \<^verbatim>\<open>ParsingException\<close> that carries the query text \<open>q\<close> and the message
  of \<open>e\<close>, and whose cause is \<open>e\<close> if \<open>debug\<close> is set and absent otherwise.
\<close>

theorem parse_failure_raises_ParsingException:
  assumes schema: "prepare_schema tm h self = Inr schema"
    and fails: "getSqlNode (G schema) q = Inl e
        \<or> (\<exists>sqlNode. getSqlNode (G schema) q = Inr sqlNode
              \<and> (getValidatedNode (G schema) sqlNode = Inl e
                 \<or> (\<exists>validated. getValidatedNode (G schema) sqlNode = Inr validated
                      \<and> (getRelationalAlgebra (G schema) validated = Inl e
                         \<or> (\<exists>nonOptimized.
                               getRelationalAlgebra (G schema) validated = Inr nonOptimized
                               \<and> getOptimizedRelationalAlgebra (G schema) nonOptimized
                                   = Inl e)))))"
    and kind: "is_parse_or_validation e"
  shows "sql J G convert tm h self q debug
           = ([], Inl (ParsingException q (message e) (if debug then Some e else None)))"
proof -
  from schema fails have "get_ral J G tm h self q debug = Inl e"
    by (auto simp: get_ral_def Let_def)
  with kind show ?thesis
    by (simp add: sql_def handle_exception_def)
qed

theorem parse_failure_raises_ParsingException_witness:
  "sql \<lparr>get_java_class = (\<lambda>node::nat. ''org.apache.calcite.sql.SqlSelect''),
        getSelectList = (\<lambda>node. []),
        toSqlString = (\<lambda>node (dialect::unit). ''x'')\<rparr>
       (\<lambda>schema::string DaskSchema.
          \<lparr>getSqlNode = (\<lambda>q. Inl (SqlParseException ''Encountered FROM at line 1'')),
           getValidatedNode = Inr,
           getRelationalAlgebra = Inr, getOptimizedRelationalAlgebra = Inr,
           getDialect = (), getRelationalAlgebraString = (\<lambda>rel::nat. ''plan'')\<rparr>)
       (\<lambda>rel h (self :: (string, nat) Context). Inr (h, DataContainer 0 []))
       (\<lambda>t. if t = ''int64'' then Some ''BIGINT'' else None)
       [[(''a'', ''int64'', [1::int])]]
       \<lparr>tables = [(''t'', DataContainer 0 (ColumnContainer [''a'']))],
        functions = [], aggregations = []\<rparr>
       ''SELECT FROM t'' True
     = ([], Inl (ParsingException ''SELECT FROM t'' ''Encountered FROM at line 1''
                   (Some (SqlParseException ''Encountered FROM at line 1''))))
   \<and> sql \<lparr>get_java_class = (\<lambda>node::nat. ''org.apache.calcite.sql.SqlSelect''),
        getSelectList = (\<lambda>node. []),
        toSqlString = (\<lambda>node (dialect::unit). ''x'')\<rparr>
       (\<lambda>schema::string DaskSchema.
          \<lparr>getSqlNode = (\<lambda>q. Inl (SqlParseException ''Encountered FROM at line 1'')),
           getValidatedNode = Inr,
           getRelationalAlgebra = Inr, getOptimizedRelationalAlgebra = Inr,
           getDialect = (), getRelationalAlgebraString = (\<lambda>rel::nat. ''plan'')\<rparr>)
       (\<lambda>rel h (self :: (string, nat) Context). Inr (h, DataContainer 0 []))
       (\<lambda>t. if t = ''int64'' then Some ''BIGINT'' else None)
       [[(''a'', ''int64'', [1::int])]]
       \<lparr>tables = [(''t'', DataContainer 0 (ColumnContainer [''a'']))],
        functions = [], aggregations = []\<rparr>
       ''SELECT FROM t'' False
     = ([], Inl (ParsingException ''SELECT FROM t'' ''Encountered FROM at line 1'' None))"
proof -
  let ?e = "SqlParseException ''Encountered FROM at line 1''"
  let ?G = "\<lambda>schema::string DaskSchema.
          \<lparr>getSqlNode = (\<lambda>q. Inl ?e),
           getValidatedNode = (Inr :: nat \<Rightarrow> exn + nat),
           getRelationalAlgebra = (Inr :: nat \<Rightarrow> exn + nat),
           getOptimizedRelationalAlgebra = (Inr :: nat \<Rightarrow> exn + nat),
           getDialect = (), getRelationalAlgebraString = (\<lambda>rel::nat. ''plan'')\<rparr>"
  let ?tm = "\<lambda>t. if t = ''int64'' then Some ''BIGINT'' else None"
  let ?h = "[[(''a'', ''int64'', [1::int])]]"
  let ?self = "\<lparr>tables = [(''t'', DataContainer 0 (ColumnContainer [''a'']))],
        functions = [], aggregations = []\<rparr> :: (string, nat) Context"
  let ?schema = "\<lparr>schema_name = ''schema'',
        schema_tables = [\<lparr>table_name = ''t'', table_columns = [(''a'', ''BIGINT'')]\<rparr>],
        schema_functions = []\<rparr>"
  have schema: "prepare_schema ?tm ?h ?self = Inr ?schema"
    by (simp add: prepare_schema_def python_to_sql_type_def DaskSchema_def
        DaskTable_def addColumn_def addTable_def DataContainer_def)
  have fails: "getSqlNode (?G ?schema) ''SELECT FROM t'' = Inl ?e
        \<or> (\<exists>sqlNode. getSqlNode (?G ?schema) ''SELECT FROM t'' = Inr sqlNode
              \<and> (getValidatedNode (?G ?schema) sqlNode = Inl ?e
                 \<or> (\<exists>validated. getValidatedNode (?G ?schema) sqlNode = Inr validated
                      \<and> (getRelationalAlgebra (?G ?schema) validated = Inl ?e
                         \<or> (\<exists>nonOptimized.
                               getRelationalAlgebra (?G ?schema) validated = Inr nonOptimized
                               \<and> getOptimizedRelationalAlgebra (?G ?schema) nonOptimized
                                   = Inl ?e)))))"
    by simp
  have kind: "is_parse_or_validation ?e"
    by simp
  from parse_failure_raises_ParsingException [OF schema fails kind, where debug = True]
       parse_failure_raises_ParsingException [OF schema fails kind, where debug = False]
  show ?thesis by simp
qed

subsection \<open>Select names\<close>

text \<open>
  Claim C3. When the schema is built and the four steps of the external parser and optimizer
  succeed, \<^verbatim>\<open>_get_ral\<close> returns the optimized plan together with a name list that is not
  \<^verbatim>\<open>None\<close> if and only if the class of the parsed top-level node is
  \<^verbatim>\<open>org.apache.calcite.sql.SqlSelect\<close>; for a select node the list holds the SQL strings of its
  select list in order, for any other node it is \<^verbatim>\<open>None\<close>, and then \<^verbatim>\<open>sql\<close> passes the converted
  Data Container to \<^verbatim>\<open>assign\<close> without renaming.
\<close>

theorem select_names_iff_select:
  assumes "prepare_schema tm h self = Inr schema"
    and "getSqlNode (G schema) q = Inr sqlNode"
    and "getValidatedNode (G schema) sqlNode = Inr validated"
    and "getRelationalAlgebra (G schema) validated = Inr nonOptimized"
    and "getOptimizedRelationalAlgebra (G schema) nonOptimized = Inr rel"
  shows "\<exists>select_names out.
           get_ral J G tm h self q debug = Inr (rel, select_names, out)
         \<and> (select_names \<noteq> None
              \<longleftrightarrow> get_java_class J sqlNode = ''org.apache.calcite.sql.SqlSelect'')
         \<and> (get_java_class J sqlNode = ''org.apache.calcite.sql.SqlSelect'' \<longrightarrow>
              select_names = Some (map (\<lambda>s. toSqlString J s (getDialect (G schema)))
                                     (getSelectList J sqlNode)))
         \<and> (get_java_class J sqlNode \<noteq> ''org.apache.calcite.sql.SqlSelect'' \<longrightarrow>
              select_names = None
              \<and> (\<forall>h' dc. convert rel h self = Inr (h', dc) \<longrightarrow>
                    rename_expr_columns dc select_names = dc
                    \<and> sql J G convert tm h self q debug = (out, assign h' dc)))"
  using assms
  by (auto simp: get_ral_def sql_def Let_def rename_expr_columns_def)

theorem select_names_iff_select_witness:
  "get_ral \<lparr>get_java_class = (\<lambda>node::nat. ''org.apache.calcite.sql.SqlOrderBy''),
            getSelectList = (\<lambda>node. [1]),
            toSqlString = (\<lambda>node (dialect::unit). ''a + 1'')\<rparr>
       (\<lambda>schema::string DaskSchema.
          \<lparr>getSqlNode = (\<lambda>q. Inr 0), getValidatedNode = Inr,
           getRelationalAlgebra = Inr, getOptimizedRelationalAlgebra = Inr,
           getDialect = (), getRelationalAlgebraString = (\<lambda>rel::nat. ''plan'')\<rparr>)
       (\<lambda>t. if t = ''int64'' then Some ''BIGINT'' else None)
       [[(''a'', ''int64'', [1::int])]]
       (\<lparr>tables = [(''t'', DataContainer 0 (ColumnContainer [''a'']))],
         functions = [], aggregations = []\<rparr> :: (string, nat) Context)
       ''SELECT a + 1 FROM t ORDER BY a'' False
     = Inr (0, None, [])"
proof -
  let ?J = "\<lparr>get_java_class = (\<lambda>node::nat. ''org.apache.calcite.sql.SqlOrderBy''),
            getSelectList = (\<lambda>node. [1]),
            toSqlString = (\<lambda>node (dialect::unit). ''a + 1'')\<rparr>"
  let ?G = "\<lambda>schema::string DaskSchema.
          \<lparr>getSqlNode = (\<lambda>q. Inr 0 :: exn + nat),
           getValidatedNode = (Inr :: nat \<Rightarrow> exn + nat),
           getRelationalAlgebra = (Inr :: nat \<Rightarrow> exn + nat),
           getOptimizedRelationalAlgebra = (Inr :: nat \<Rightarrow> exn + nat),
           getDialect = (), getRelationalAlgebraString = (\<lambda>rel::nat. ''plan'')\<rparr>"
  let ?tm = "\<lambda>t. if t = ''int64'' then Some ''BIGINT'' else None"
  let ?h = "[[(''a'', ''int64'', [1::int])]]"
  let ?self = "\<lparr>tables = [(''t'', DataContainer 0 (ColumnContainer [''a'']))],
        functions = [], aggregations = []\<rparr> :: (string, nat) Context"
  let ?schema = "\<lparr>schema_name = ''schema'',
        schema_tables = [\<lparr>table_name = ''t'', table_columns = [(''a'', ''BIGINT'')]\<rparr>],
        schema_functions = []\<rparr>"
  let ?q = "''SELECT a + 1 FROM t ORDER BY a''"
  have schema: "prepare_schema ?tm ?h ?self = Inr ?schema"
    by (simp add: prepare_schema_def python_to_sql_type_def DaskSchema_def
        DaskTable_def addColumn_def addTable_def DataContainer_def)
  have parsed: "getSqlNode (?G ?schema) ?q = Inr 0" by simp
  have validated: "getValidatedNode (?G ?schema) 0 = Inr 0" by simp
  have converted: "getRelationalAlgebra (?G ?schema) 0 = Inr 0" by simp
  have optimized: "getOptimizedRelationalAlgebra (?G ?schema) 0 = Inr 0" by simp
  from select_names_iff_select [OF schema parsed validated converted optimized,
         where J = ?J and debug = False
           and convert = "\<lambda>rel h (self :: (string, nat) Context). Inr (h, DataContainer 0 [])"]
  obtain select_names out where
    r: "get_ral ?J ?G ?tm ?h ?self ?q False = Inr (0, select_names, out)"
    and n: "get_java_class ?J 0 \<noteq> ''org.apache.calcite.sql.SqlSelect'' \<longrightarrow> select_names = None"
    by blast
  from n have "select_names = None" by simp
  with r show ?thesis
    by (simp add: get_ral_def schema)
qed

subsection \<open>Renaming the synthetic column names\<close>



end
